theory Spec2Isabelle
  imports Complex_Main "HOL-Library.List_Lexorder"
begin

section \<open>Global explanations of survival models: PDP, PFI and ALE\<close>

text \<open>
  A shallow embedding of \<^verbatim>\<open>Lucas/src/global_explaination.py\<close>.

  Conventions of the embedding:
  \<^item> a Python exception is a value of \<open>error\<close>, and a function that can raise returns
    \<open>error + 'a\<close> with \<open>Inl\<close> for the exception;
  \<^item> a float is a \<open>real\<close>: the value of the float, without rounding and without
    NaN. Where the rounding of numpy can change which branch the code takes (the
    quantile breakpoints and the distances to them, which decide the bin of an
    observation), the numpy operation is a parameter of the model (\<open>numpy\<close>), so that
    the theorems hold for the rounded operations as for the exact ones. The quotient of
    the permutation importance, the one place where the source can divide by zero, has
    the IEEE special values (\<open>npfloat\<close>);
  \<^item> a pandas DataFrame is a \<open>frame\<close>: the column labels and the rows. The row index
    of pandas is not modelled;
  \<^item> the DataFrames that the caller owns live in a heap and are named by their address,
    so that copying and in-place assignment can be told apart.
\<close>

subsection \<open>Errors\<close>

datatype error =
    ValueError string
  | KeyError string
  | TypeError string
  | IndexError string
  | UnboundLocalError string
  | NotModelled string

definition bindE :: "error + 'a \<Rightarrow> ('a \<Rightarrow> error + 'b) \<Rightarrow> error + 'b" where
  "bindE m f = (case m of Inl e \<Rightarrow> Inl e | Inr x \<Rightarrow> f x)"

subsection \<open>The numpy operations used by the module\<close>

text \<open>\<^verbatim>\<open>np.unique(a)\<close>: the sorted distinct values of \<open>a\<close>.\<close>

definition np_unique :: "'a::linorder list \<Rightarrow> 'a list" where
  "np_unique xs = remdups (sort xs)"

text \<open>
  The extended slice \<^verbatim>\<open>a[start::step]\<close> for a positive step: the element at
  \<open>start\<close>, then every \<open>step\<close>-th one. \<open>stride\<close> is \<^verbatim>\<open>a[::step]\<close>.
\<close>

function stride :: "nat \<Rightarrow> 'a list \<Rightarrow> 'a list" where
  "stride k [] = []"
| "stride k (x # xs) = x # stride k (drop (k - 1) xs)"
  by pat_completeness auto
termination
  by (relation "measure (\<lambda>(k, xs). length xs)") auto

definition slice_from_step :: "nat \<Rightarrow> nat \<Rightarrow> 'a list \<Rightarrow> 'a list" where
  "slice_from_step start step xs = stride step (drop start xs)"

text \<open>\<^verbatim>\<open>np.repeat(a, n)\<close>: every element of \<open>a\<close> repeated \<open>n\<close> times in place.\<close>

definition np_repeat :: "'a list \<Rightarrow> nat \<Rightarrow> 'a list" where
  "np_repeat xs n = concat (map (replicate n) xs)"

text \<open>
  \<^verbatim>\<open>np.quantile(a, q)\<close> with the default linear interpolation, in exact arithmetic:
  \<open>a\<close> is sorted, the quantile \<open>q\<close> sits at the virtual index \<open>(n - 1) * q\<close>, and the
  result interpolates between the two neighbours of that index (the upper neighbour is
  clipped to the last position). A level outside \<open>[0, 1]\<close> is a \<^verbatim>\<open>ValueError\<close>; an empty
  array has no element to take and raises \<^verbatim>\<open>IndexError\<close>.
\<close>

definition quantile_at :: "real list \<Rightarrow> real \<Rightarrow> real" where
  "quantile_at arr q =
     (let n = length arr;
          virtual_index = real (n - 1) * q;
          previous_index = nat \<lfloor>virtual_index\<rfloor>;
          next_index = min (previous_index + 1) (n - 1);
          gamma = virtual_index - real previous_index
      in arr ! previous_index + (arr ! next_index - arr ! previous_index) * gamma)"

definition np_quantile :: "real list \<Rightarrow> real list \<Rightarrow> error + real list" where
  "np_quantile a q =
     (if \<not> list_all (\<lambda>x. 0 \<le> x \<and> x \<le> 1) q
        then Inl (ValueError ''Quantiles must be in the range [0, 1]'')
      else if a = [] then Inl (IndexError ''index -1 is out of bounds for axis 0 with size 0'')
      else Inr (map (quantile_at (sort a)) q))"

text \<open>\<^verbatim>\<open>a.argmin()\<close>: the position of the first occurrence of the least element.\<close>

definition argmin :: "real list \<Rightarrow> nat" where
  "argmin xs = length (takeWhile (\<lambda>x. x \<noteq> min_list xs) xs)"

text \<open>
  The numpy operations on floats whose rounding can decide a branch of the module:
  \<^verbatim>\<open>np.quantile\<close> and the subtraction of two floats. \<open>exact_numpy\<close> computes them without
  rounding.
\<close>

record numpy =
  quantile :: "real list \<Rightarrow> real list \<Rightarrow> error + real list"
  subtract :: "real \<Rightarrow> real \<Rightarrow> real"

definition exact_numpy :: numpy where
  "exact_numpy = \<lparr> quantile = np_quantile, subtract = (-) \<rparr>"

text \<open>\<^verbatim>\<open>np.quantile\<close> returns one value per level.\<close>

definition quantile_shape :: "numpy \<Rightarrow> bool" where
  "quantile_shape np \<longleftrightarrow> (\<forall>a q g. quantile np a q = Inr g \<longrightarrow> length g = length q)"

text \<open>\<^verbatim>\<open>np.quantile\<close> is monotone: ascending levels give ascending values.\<close>

definition quantile_monotone :: "numpy \<Rightarrow> bool" where
  "quantile_monotone np \<longleftrightarrow> (\<forall>a q g. quantile np a q = Inr g \<longrightarrow> sorted q \<longrightarrow> sorted g)"

text \<open>
  Element-wise binary operations broadcast an operand of length 1 against the other
  one; any other pair of different lengths is a \<^verbatim>\<open>ValueError\<close>.
\<close>

definition broadcast2 :: "('a \<Rightarrow> 'b \<Rightarrow> 'c) \<Rightarrow> 'a list \<Rightarrow> 'b list \<Rightarrow> error + 'c list" where
  "broadcast2 f a b =
     (if length a = length b then Inr (map2 f a b)
      else if length b = 1 then Inr (map (\<lambda>x. f x (hd b)) a)
      else if length a = 1 then Inr (map (f (hd a)) b)
      else Inl (ValueError ''operands could not be broadcast together''))"

text \<open>\<^verbatim>\<open>a += b\<close>: the broadcast sum has to fit the shape of \<open>a\<close>.\<close>

definition np_iadd :: "real list \<Rightarrow> real list \<Rightarrow> error + real list" where
  "np_iadd a b =
     bindE (broadcast2 (+) a b) (\<lambda>r.
       if length r = length a then Inr r
       else Inl (ValueError ''non-broadcastable output operand''))"

text \<open>
  The quotient of two floats as numpy computes it: a division by zero is no exception
  (numpy warns and goes on), it yields an infinity, or NaN for \<open>0 / 0\<close>. The zero divisor
  of this module is the \<open>+0.0\<close> of \<^verbatim>\<open>np.zeros\<close>, so the sign of the infinity is the sign
  of the dividend.
\<close>

datatype npfloat = Fin real | PInf | NInf | NaN

definition np_true_divide :: "real \<Rightarrow> real \<Rightarrow> npfloat" where
  "np_true_divide a b =
     (if b \<noteq> 0 then Fin (a / b)
      else if a = 0 then NaN
      else if 0 < a then PInf
      else NInf)"

fun is_finite :: "npfloat \<Rightarrow> bool" where
  "is_finite (Fin x) = True"
| "is_finite PInf = False"
| "is_finite NInf = False"
| "is_finite NaN = False"

subsection \<open>DataFrames\<close>

text \<open>
  A DataFrame is its column labels and its rows; the labels are distinct and every row
  has one cell per column (\<open>wf_frame\<close>).
\<close>

record 'a frame =
  columns :: "string list"
  rows :: "'a list list"

definition wf_frame :: "'a frame \<Rightarrow> bool" where
  "wf_frame df \<longleftrightarrow>
     distinct (columns df) \<and> list_all (\<lambda>r. length r = length (columns df)) (rows df)"

text \<open>The position of a column label; a label that is absent is a \<^verbatim>\<open>KeyError\<close>.\<close>

definition get_loc :: "string list \<Rightarrow> string \<Rightarrow> error + nat" where
  "get_loc cols name =
     (if name \<in> set cols then Inr (length (takeWhile (\<lambda>c. c \<noteq> name) cols))
      else Inl (KeyError name))"

fun mapE :: "('a \<Rightarrow> error + 'b) \<Rightarrow> 'a list \<Rightarrow> error + 'b list" where
  "mapE f [] = Inr []"
| "mapE f (x # xs) = bindE (f x) (\<lambda>y. bindE (mapE f xs) (\<lambda>ys. Inr (y # ys)))"

text \<open>\<^verbatim>\<open>df[name].values\<close>: the cells of one column.\<close>

definition getitem :: "'a frame \<Rightarrow> string \<Rightarrow> error + 'a list" where
  "getitem df name = bindE (get_loc (columns df) name) (\<lambda>j. Inr (map (\<lambda>r. r ! j) (rows df)))"

text \<open>\<^verbatim>\<open>df[[name1, name2, ...]]\<close>: the frame of the named columns, in the order asked for.\<close>

definition getitem_list :: "'a frame \<Rightarrow> string list \<Rightarrow> error + 'a frame" where
  "getitem_list df names =
     bindE (mapE (get_loc (columns df)) names) (\<lambda>js.
       Inr \<lparr> columns = names, rows = map (\<lambda>r. map (\<lambda>j. r ! j) js) (rows df) \<rparr>)"

text \<open>
  \<^verbatim>\<open>df[name] = values\<close>: an existing column is overwritten, a new label is appended as
  the last column. The number of values has to be the number of rows, or pandas raises
  \<^verbatim>\<open>ValueError\<close>. The one exception is a frame without rows: there pandas re-indexes
  the frame to the length of the values and fills the other columns with NaN; the model
  keeps that case apart as \<open>NotModelled\<close>.
\<close>

definition assign_column :: "'a frame \<Rightarrow> string \<Rightarrow> 'a list \<Rightarrow> 'a frame" where
  "assign_column df name vals =
     (if name \<in> set (columns df) then
        (let j = length (takeWhile (\<lambda>c. c \<noteq> name) (columns df))
         in df\<lparr>rows := map2 (\<lambda>r v. r[j := v]) (rows df) vals\<rparr>)
      else \<lparr> columns = columns df @ [name],
             rows = map2 (\<lambda>r v. r @ [v]) (rows df) vals \<rparr>)"

definition setitem :: "'a frame \<Rightarrow> string \<Rightarrow> 'a list \<Rightarrow> error + 'a frame" where
  "setitem df name vals =
     (if rows df = [] \<and> vals \<noteq> [] then Inl (NotModelled ''assignment to a frame without rows'')
      else if length vals \<noteq> length (rows df)
        then Inl (ValueError ''Length of values does not match length of index'')
      else Inr (assign_column df name vals))"

text \<open>
  \<^verbatim>\<open>df.sort_values(by=[name])\<close>: a new frame with the rows in ascending order of one
  column. pandas sorts with an unstable quicksort, so rows with equal keys may come out
  in any order; the model takes the stable order, which is one of them.
\<close>

definition sort_values :: "('a::linorder) frame \<Rightarrow> string \<Rightarrow> error + 'a frame" where
  "sort_values df name =
     bindE (get_loc (columns df) name) (\<lambda>j. Inr (df\<lparr>rows := sort_key (\<lambda>r. r ! j) (rows df)\<rparr>))"

text \<open>
  \<^verbatim>\<open>df.groupby(keys).mean().reset_index()\<close>: one row per distinct tuple of key cells,
  in ascending (lexicographic) order of the tuples; the key columns come first, then the
  mean of every other column over the rows of the group.
\<close>

definition mean :: "real list \<Rightarrow> real" where
  "mean xs = sum_list xs / real (length xs)"

definition groupby_mean :: "real frame \<Rightarrow> string list \<Rightarrow> error + real frame" where
  "groupby_mean df keys =
     bindE (mapE (get_loc (columns df)) keys) (\<lambda>ks.
       let others = filter (\<lambda>j. j \<notin> set ks) [0..<length (columns df)];
           key_of = (\<lambda>r. map (\<lambda>j. r ! j) ks);
           group_keys = np_unique (map key_of (rows df))
       in Inr \<lparr> columns = keys @ map (\<lambda>j. columns df ! j) others,
                rows = map (\<lambda>k. k @ map (\<lambda>j. mean (map (\<lambda>r. r ! j)
                                   (filter (\<lambda>r. key_of r = k) (rows df)))) others)
                           group_keys \<rparr>)"

subsection \<open>The heap of caller-visible DataFrames\<close>

text \<open>
  The DataFrames that exist when a function is called, and the copies it makes of them,
  live in a heap; an address is a position of the heap. \<^verbatim>\<open>df.copy(deep=True)\<close> allocates:
  the copy gets the next free address. An assignment to a column writes to the frame at
  the address it is given.
\<close>

type_synonym addr = nat
type_synonym heap = "real frame list"

definition df_new :: "heap \<Rightarrow> real frame \<Rightarrow> addr \<times> heap" where
  "df_new h df = (length h, h @ [df])"

definition df_copy :: "heap \<Rightarrow> addr \<Rightarrow> addr \<times> heap" where
  "df_copy h a = df_new h (h ! a)"

definition heap_setitem :: "heap \<Rightarrow> addr \<Rightarrow> string \<Rightarrow> real list \<Rightarrow> error + heap" where
  "heap_setitem h a name vals = bindE (setitem (h ! a) name vals) (\<lambda>df. Inr (h[a := df]))"

subsection \<open>The explainer\<close>

text \<open>
  \<open>data\<close> is a reference to the DataFrame of the explainer; \<open>label\<close> is the array of
  rows (observed time, event indicator).
\<close>

record explainer =
  data :: addr
  label :: "(real \<times> real) list"

subsection \<open>Partial dependence (lines 12-47)\<close>

text \<open>
  \<^verbatim>\<open>individual_conditional_expectation\<close> is imported from a module that is not part of
  these sources; it is a parameter of the model. It reads the data of the explainer and
  returns the ICE table, or raises.
\<close>

definition partial_dependence_plots ::
  "(heap \<Rightarrow> explainer \<Rightarrow> string \<Rightarrow> int \<Rightarrow> int \<Rightarrow> string \<Rightarrow> error + real frame) \<Rightarrow>
   heap \<Rightarrow> explainer \<Rightarrow> string \<Rightarrow> int \<Rightarrow> int \<Rightarrow> string \<Rightarrow> error + real frame" where
  "partial_dependence_plots individual_conditional_expectation h explainer selected_features
       n_sel_samples n_grid_points output_type =
     bindE (individual_conditional_expectation h explainer selected_features
              n_sel_samples n_grid_points output_type) (\<lambda>ICE_df.
     bindE (groupby_mean ICE_df [''X'', ''times'']) (\<lambda>grouped.
       getitem_list grouped [''X'', ''times'', ''pred'']))"

subsection \<open>Permutation feature importance (lines 81-125)\<close>

text \<open>
  Modelled from the spec: \<^verbatim>\<open>performance.evaluate\<close>, whose module is not part of these
  sources. By the interface of the Performance Evaluator,
  \<^verbatim>\<open>evaluate(explainer, features, labels, times, metric) -> table[time, perf]\<close>, it returns
  one row per evaluation time with the loss of the model at that time. The loss itself
  is the parameter \<open>metric_at\<close>, an arbitrary function of the explainer, the content of the
  feature table, the labels, the metric and the time.
\<close>

definition evaluate ::
  "(explainer \<Rightarrow> real frame \<Rightarrow> 'l \<Rightarrow> string \<Rightarrow> real \<Rightarrow> real) \<Rightarrow>
   explainer \<Rightarrow> real frame \<Rightarrow> 'l \<Rightarrow> real list \<Rightarrow> string \<Rightarrow> real frame" where
  "evaluate metric_at explainer feats surv_labels eval_times metric =
     \<lparr> columns = [''times'', ''perf''],
       rows = map (\<lambda>t. [t, metric_at explainer feats surv_labels metric t]) eval_times \<rparr>"

text \<open>
  The cells of the result table. \<^verbatim>\<open>np.stack\<close> of a list of strings and two float arrays
  is an array of strings: \<open>Repr x\<close> is the string that holds the digits of the float \<open>x\<close>
  (\<^verbatim>\<open>'inf'\<close>, \<^verbatim>\<open>'-inf'\<close> and \<^verbatim>\<open>'nan'\<close> for the special values). \<^verbatim>\<open>pd.to_numeric\<close> reads the
  digits back as the number, and the two infinities too; it does not read \<^verbatim>\<open>'nan'\<close>, nor
  any other text, and raises \<^verbatim>\<open>ValueError\<close> there.
\<close>

datatype cell = Str string | Repr npfloat | Num npfloat

definition to_numeric :: "cell \<Rightarrow> error + cell" where
  "to_numeric c =
     (case c of
        Num x \<Rightarrow> Inr (Num x)
      | Repr x \<Rightarrow> (if x = NaN then Inl (ValueError ''Unable to parse string nan'')
                  else Inr (Num x))
      | Str s \<Rightarrow> Inl (ValueError ''Unable to parse string''))"

text \<open>
  \<^verbatim>\<open>df[names] = value\<close> for a frame \<open>value\<close> with the same columns: pandas assigns the
  columns one after the other.
\<close>

fun setitem_columns :: "'a frame \<Rightarrow> string list \<Rightarrow> 'a frame \<Rightarrow> error + 'a frame" where
  "setitem_columns df [] val = Inr df"
| "setitem_columns df (name # names) val =
     bindE (getitem val name) (\<lambda>col.
     bindE (setitem df name col) (\<lambda>df'. setitem_columns df' names val))"

text \<open>Line 123: \<^verbatim>\<open>df[names] = df[names].apply(pd.to_numeric)\<close>.\<close>

definition to_numeric_columns :: "cell frame \<Rightarrow> string list \<Rightarrow> error + cell frame" where
  "to_numeric_columns df names =
     bindE (getitem_list df names) (\<lambda>sub.
     bindE (mapE (mapE to_numeric) (rows sub)) (\<lambda>converted.
       setitem_columns df names (sub\<lparr>rows := converted\<rparr>)))"

text \<open>
  \<^verbatim>\<open>np.stack((a, b, c)).T\<close> for the three arrays of line 119: they must have the same
  shape; row \<open>i\<close> of the result holds the \<open>i\<close>-th element of each, as a string.
\<close>

definition np_stack_T :: "string list \<Rightarrow> real list \<Rightarrow> npfloat list \<Rightarrow> error + cell list list" where
  "np_stack_T a b c =
     (if length a = length b \<and> length b = length c
        then Inr (map (\<lambda>(x, y, z). [Str x, Repr (Fin y), Repr z]) (zip a (zip b c)))
      else Inl (ValueError ''all input arrays must have the same shape''))"

text \<open>\<^verbatim>\<open>pd.concat([a, b])\<close> for two frames with the same columns.\<close>

definition pd_concat :: "'a frame \<Rightarrow> 'a frame \<Rightarrow> 'a frame" where
  "pd_concat a b = \<lparr> columns = columns a, rows = rows a @ rows b \<rparr>"

text \<open>
  Lines 109-112, one permutation: a deep copy of \<open>feats\<close> whose column \<open>feat_name\<close> is
  shuffled. \<^verbatim>\<open>np.random.shuffle\<close> permutes the values of the column in place, in the first
  copy; the generator is a parameter (\<open>shuffle\<close> takes the state of the generator and the
  values, and returns the permuted values and the next state). The result is the address
  of the second copy, \<^verbatim>\<open>feats_perm_df\<close>.
\<close>

definition permuted_copy ::
  "('g \<Rightarrow> real list \<Rightarrow> real list \<times> 'g) \<Rightarrow> addr \<Rightarrow> string \<Rightarrow> heap \<Rightarrow> 'g \<Rightarrow>
   (error + addr) \<times> heap \<times> 'g" where
  "permuted_copy shuffle feats feat_name h g =
     (let (c, h1) = df_copy h feats in
      case getitem (h1 ! c) feat_name of
        Inl e \<Rightarrow> (Inl e, h1, g)
      | Inr vals \<Rightarrow>
          (let (feat_perm, g') = shuffle g vals in
           case heap_setitem h1 c feat_name feat_perm of
             Inl e \<Rightarrow> (Inl e, h1, g')
           | Inr h2 \<Rightarrow>
               (let (feats_perm_df, h3) = df_copy h2 feats in
                case heap_setitem h3 feats_perm_df feat_name feat_perm of
                  Inl e \<Rightarrow> (Inl e, h3, g')
                | Inr h4 \<Rightarrow> (Inr feats_perm_df, h4, g'))))"

text \<open>
  Lines 108-115, \<^verbatim>\<open>for k in range(n_perm)\<close>: the first argument counts the iterations
  that remain. \<open>ev\<close> is the evaluation of line 113 on the content of a frame, and \<open>w\<close> is
  the weight \<^verbatim>\<open>1 / n_perm\<close>.
\<close>

fun permutation_loop ::
  "('g \<Rightarrow> real list \<Rightarrow> real list \<times> 'g) \<Rightarrow> (real frame \<Rightarrow> error + real list) \<Rightarrow> real \<Rightarrow>
   addr \<Rightarrow> string \<Rightarrow> nat \<Rightarrow> real list \<Rightarrow> heap \<Rightarrow> 'g \<Rightarrow> (error + real list) \<times> heap \<times> 'g" where
  "permutation_loop shuffle ev w feats feat_name 0 bs_perf_perm h g = (Inr bs_perf_perm, h, g)"
| "permutation_loop shuffle ev w feats feat_name (Suc k) bs_perf_perm h g =
     (case permuted_copy shuffle feats feat_name h g of
        (Inl e, h', g') \<Rightarrow> (Inl e, h', g')
      | (Inr feats_perm_df, h', g') \<Rightarrow>
          (case bindE (ev (h' ! feats_perm_df)) (\<lambda>tmp. np_iadd bs_perf_perm (map ((*) w) tmp)) of
             Inl e \<Rightarrow> (Inl e, h', g')
           | Inr acc \<Rightarrow> permutation_loop shuffle ev w feats feat_name k acc h' g'))"

text \<open>Lines 118-120: the rows of one feature.\<close>

definition importance_rows ::
  "string \<Rightarrow> real list \<Rightarrow> real list \<Rightarrow> real list \<Rightarrow> error + cell frame" where
  "importance_rows feat_name eval_times bs_perf bs_perf_perm =
     bindE (broadcast2 np_true_divide bs_perf bs_perf_perm) (\<lambda>importance_ratio.
     bindE (np_stack_T (replicate (length eval_times) feat_name) eval_times importance_ratio)
       (\<lambda>importance_ratio_data.
          Inr \<lparr> columns = [''feat'', ''times'', ''perf''], rows = importance_ratio_data \<rparr>))"

text \<open>Lines 106-121, \<^verbatim>\<open>for feat_name in feats_name\<close>.\<close>

fun feature_loop ::
  "('g \<Rightarrow> real list \<Rightarrow> real list \<times> 'g) \<Rightarrow> (real frame \<Rightarrow> error + real list) \<Rightarrow> int \<Rightarrow>
   real list \<Rightarrow> real list \<Rightarrow> string \<Rightarrow> addr \<Rightarrow> string list \<Rightarrow> cell frame \<Rightarrow> heap \<Rightarrow> 'g \<Rightarrow>
   (error + cell frame) \<times> heap \<times> 'g" where
  "feature_loop shuffle ev n_perm bs_perf eval_times scoring_type feats [] feat_importance_df h g =
     (Inr feat_importance_df, h, g)"
| "feature_loop shuffle ev n_perm bs_perf eval_times scoring_type feats (feat_name # feats_name)
       feat_importance_df h g =
     (case permutation_loop shuffle ev (1 / real_of_int n_perm) feats feat_name (nat n_perm)
             (replicate (length eval_times) 0) h g of
        (Inl e, h', g') \<Rightarrow> (Inl e, h', g')
      | (Inr bs_perf_perm, h', g') \<Rightarrow>
          if scoring_type = ''ratio'' then
            (case importance_rows feat_name eval_times bs_perf bs_perf_perm of
               Inl e \<Rightarrow> (Inl e, h', g')
             | Inr additional_ratio \<Rightarrow>
                 feature_loop shuffle ev n_perm bs_perf eval_times scoring_type feats feats_name
                   (pd_concat feat_importance_df additional_ratio) h' g')
          else
            feature_loop shuffle ev n_perm bs_perf eval_times scoring_type feats feats_name
              feat_importance_df h' g')"

text \<open>
  The function. \<open>feats\<close> is the address of the feature table of the caller; \<open>eval_times\<close> is
  \<open>None\<close> when the caller leaves it out, and then \<^verbatim>\<open>len(eval_times)\<close> raises. When \<open>loss\<close>
  is not \<^verbatim>\<open>"brier_score"\<close>, line 123 reads \<^verbatim>\<open>feat_importance_df\<close>, which was never
  assigned. The parameter \<^verbatim>\<open>type\<close> of the source is \<open>scoring_type\<close> here.
\<close>

definition permutation_feature_importance ::
  "(explainer \<Rightarrow> real frame \<Rightarrow> 'l \<Rightarrow> string \<Rightarrow> real \<Rightarrow> real) \<Rightarrow>
   ('g \<Rightarrow> real list \<Rightarrow> real list \<times> 'g) \<Rightarrow>
   explainer \<Rightarrow> addr \<Rightarrow> 'l \<Rightarrow> real list option \<Rightarrow> int \<Rightarrow> string \<Rightarrow> string \<Rightarrow> heap \<Rightarrow> 'g \<Rightarrow>
   (error + cell frame) \<times> heap \<times> 'g" where
  "permutation_feature_importance metric_at shuffle explainer feats surv_labels eval_times
       n_perm loss scoring_type h g =
     (if loss = ''brier_score'' then
        (case eval_times of
           None \<Rightarrow> (Inl (TypeError ''object of type NoneType has no len()''), h, g)
         | Some ts \<Rightarrow>
             (let ev = (\<lambda>df. getitem (evaluate metric_at explainer df surv_labels ts
                                        ''brier_score'') ''perf'')
              in case ev (h ! feats) of
                   Inl e \<Rightarrow> (Inl e, h, g)
                 | Inr bs_perf \<Rightarrow>
                     (case feature_loop shuffle ev n_perm bs_perf ts scoring_type feats
                             (columns (h ! feats))
                             \<lparr> columns = [''feat'', ''times'', ''perf''], rows = [] \<rparr> h g of
                        (Inl e, h', g') \<Rightarrow> (Inl e, h', g')
                      | (Inr feat_importance_df, h', g') \<Rightarrow>
                          (to_numeric_columns feat_importance_df [''times'', ''perf''], h', g'))))
      else (Inl (UnboundLocalError ''feat_importance_df''), h, g))"

subsection \<open>Accumulated local effects (lines 151-192)\<close>

text \<open>Line 172: \<^verbatim>\<open>eval_times = np.unique(explainer.label[:, 0])[10::100]\<close>.\<close>

definition ale_eval_times :: "explainer \<Rightarrow> real list" where
  "ale_eval_times explainer = slice_from_step 10 100 (np_unique (map fst (label explainer)))"

text \<open>
  Modelled from the spec: \<^verbatim>\<open>predict\<close>, whose module is not part of these sources. By the
  interface of the Prediction Adapter,
  \<^verbatim>\<open>predict(explainer, dataset, eval_times, output_type) -> table[row, time, pred]\<close>, it
  returns one row per observation and evaluation time, observation by observation. The
  prediction itself is the parameter \<open>predict_at\<close>, an arbitrary function of the explainer,
  the content of the dataset, the output type, the number of the observation and the time.
\<close>

definition predict ::
  "(explainer \<Rightarrow> real frame \<Rightarrow> string \<Rightarrow> nat \<Rightarrow> real \<Rightarrow> real) \<Rightarrow>
   explainer \<Rightarrow> real frame \<Rightarrow> real list \<Rightarrow> string \<Rightarrow> real frame" where
  "predict predict_at explainer df eval_times output_type =
     \<lparr> columns = [''id'', ''times'', ''pred''],
       rows = concat (map (\<lambda>i. map (\<lambda>t. [real i, t, predict_at explainer df output_type i t])
                                 eval_times)
                          [0..<length (rows df)]) \<rparr>"

text \<open>
  Line 163: the quantile levels, \<^verbatim>\<open>np.arange(0., 1.01, 0.1)\<close>. numpy computes
  \<open>0.0 + i * 0.1\<close> in double precision for \<open>i = 0, ..., 10\<close>; these are the eleven doubles
  it yields (\<^verbatim>\<open>0.0\<close>, \<^verbatim>\<open>0.1\<close>, \<^verbatim>\<open>0.2\<close>, \<^verbatim>\<open>0.30000000000000004\<close>, \<^verbatim>\<open>0.4\<close>, \<^verbatim>\<open>0.5\<close>,
  \<^verbatim>\<open>0.6000000000000001\<close>, \<^verbatim>\<open>0.7000000000000001\<close>, \<^verbatim>\<open>0.8\<close>, \<^verbatim>\<open>0.9\<close>, \<^verbatim>\<open>1.0\<close>), with their
  exact values.
\<close>

definition qt_list :: "real list" where
  "qt_list =
     [0,
      3602879701896397 / 2 ^ 55,
      3602879701896397 / 2 ^ 54,
      1351079888211149 / 2 ^ 52,
      3602879701896397 / 2 ^ 53,
      1 / 2,
      1351079888211149 / 2 ^ 51,
      6305039478318695 / 2 ^ 53,
      3602879701896397 / 2 ^ 52,
      8106479329266893 / 2 ^ 53,
      1]"

text \<open>
  Line 165: the bin of every value, the position of the nearest breakpoint, at most
  \<^verbatim>\<open>len(qt_list) - 2\<close>.
\<close>

definition var_values_idx :: "numpy \<Rightarrow> real list \<Rightarrow> real list \<Rightarrow> nat list" where
  "var_values_idx np grid_qt_values var_values =
     map (\<lambda>var. min (argmin (map (\<lambda>q. \<bar>subtract np q var\<bar>) grid_qt_values))
                   (length qt_list - 2))
         var_values"

text \<open>
  Lines 172-192: the table, from the two perturbed datasets. The prediction tables and
  the tables derived from them are fresh values, not shared with the caller.
\<close>

definition ale_table ::
  "numpy \<Rightarrow> (explainer \<Rightarrow> real frame \<Rightarrow> string \<Rightarrow> nat \<Rightarrow> real \<Rightarrow> real) \<Rightarrow>
   explainer \<Rightarrow> real frame \<Rightarrow> real frame \<Rightarrow> nat list \<Rightarrow> real list \<Rightarrow> string \<Rightarrow>
   error + real frame" where
  "ale_table np predict_at explainer data_lower data_upper idx grid_qt_values output_type =
     (let eval_times = ale_eval_times explainer in
      bindE (if output_type = ''survival'' then
               Inr (predict predict_at explainer data_lower eval_times ''survival'',
                    predict predict_at explainer data_upper eval_times ''survival'')
             else if output_type = ''chf'' then
               Inr (predict predict_at explainer data_lower eval_times ''chf'',
                    predict predict_at explainer data_upper eval_times ''chf'')
             else Inl (ValueError ''Unsupported'')) (\<lambda>(lower_pred, upper_pred).
      let n_times = length eval_times;
          groups = np_repeat (map real idx) n_times
      in
      bindE (getitem_list upper_pred [''pred'', ''times'']) (\<lambda>diff_pred0.
      bindE (getitem diff_pred0 ''pred'') (\<lambda>upper_values.
      bindE (getitem lower_pred ''pred'') (\<lambda>lower_values.
      bindE (broadcast2 (subtract np) upper_values lower_values) (\<lambda>difference.
      bindE (setitem diff_pred0 ''pred'' difference) (\<lambda>diff_pred1.
      bindE (setitem diff_pred1 ''groups'' groups) (\<lambda>diff_pred.
      bindE (groupby_mean diff_pred [''groups'', ''times'']) (\<lambda>grouped.
      bindE (getitem_list grouped [''groups'', ''times'', ''pred'']) (\<lambda>ALE_df.
        setitem ALE_df ''group_values'' (np_repeat (butlast grid_qt_values) n_times)))))))))))"

text \<open>
  The function. The data of the explainer is copied and sorted (line 161), the bins are
  computed (lines 162-167), two more copies receive the lower and the upper edge of the
  bin of every observation (lines 168-170). The parameter \<^verbatim>\<open>type\<close> of the source is
  \<open>output_type\<close> here, and its variable \<^verbatim>\<open>data\<close> is \<open>data_sorted\<close>.
\<close>

definition accumulated_local_effects_plots ::
  "numpy \<Rightarrow> (explainer \<Rightarrow> real frame \<Rightarrow> string \<Rightarrow> nat \<Rightarrow> real \<Rightarrow> real) \<Rightarrow>
   explainer \<Rightarrow> string \<Rightarrow> string \<Rightarrow> heap \<Rightarrow> (error + real frame) \<times> heap" where
  "accumulated_local_effects_plots np predict_at explainer selected_features output_type h =
     (let (c, h1) = df_copy h (data explainer) in
      case sort_values (h1 ! c) selected_features of
        Inl e \<Rightarrow> (Inl e, h1)
      | Inr sorted_frame \<Rightarrow>
          (let (data_sorted, h2) = df_new h1 sorted_frame in
           case getitem (h2 ! data_sorted) selected_features of
             Inl e \<Rightarrow> (Inl e, h2)
           | Inr var_values \<Rightarrow>
               (case quantile np var_values qt_list of
                  Inl e \<Rightarrow> (Inl e, h2)
                | Inr grid_qt_values \<Rightarrow>
                    (let idx = var_values_idx np grid_qt_values var_values;
                         var_lower = map (\<lambda>i. grid_qt_values ! i) idx;
                         var_upper = map (\<lambda>i. grid_qt_values ! (i + 1)) idx;
                         (data_lower, h3) = df_copy h2 data_sorted;
                         (data_upper, h4) = df_copy h3 data_sorted
                     in case heap_setitem h4 data_lower selected_features var_lower of
                          Inl e \<Rightarrow> (Inl e, h4)
                        | Inr h5 \<Rightarrow>
                            (case heap_setitem h5 data_upper selected_features var_upper of
                               Inl e \<Rightarrow> (Inl e, h5)
                             | Inr h6 \<Rightarrow>
                                 (ale_table np predict_at explainer (h6 ! data_lower)
                                    (h6 ! data_upper) idx grid_qt_values output_type, h6))))))"

subsection \<open>The capabilities that are not implemented\<close>

text \<open>Lines 226-250: both entry points raise \<^verbatim>\<open>ValueError("Not supported yet")\<close>.\<close>

definition feature_interaction :: "explainer \<Rightarrow> error + 'a" where
  "feature_interaction explainer = Inl (ValueError ''Not supported yet'')"

definition functional_decomposition :: "explainer \<Rightarrow> error + 'a" where
  "functional_decomposition explainer = Inl (ValueError ''Not supported yet'')"

subsection \<open>The permutation importance as the specification states it\<close>

text \<open>
  The \<open>k\<close> tables that the repeats of one feature evaluate, as section 4.2 of the
  specification describes them: each is the feature table with the column \<open>f\<close> replaced
  by a shuffle of its values, every other column untouched. The generator is threaded
  through the repeats; the second component is its state after them.
\<close>

definition column_values :: "'a frame \<Rightarrow> string \<Rightarrow> 'a list" where
  "column_values df name =
     map (\<lambda>r. r ! length (takeWhile (\<lambda>c. c \<noteq> name) (columns df))) (rows df)"

text \<open>A shuffle returns as many values as it is given.\<close>

definition length_preserving :: "('g \<Rightarrow> real list \<Rightarrow> real list \<times> 'g) \<Rightarrow> bool" where
  "length_preserving shuffle \<longleftrightarrow> (\<forall>g xs. length (fst (shuffle g xs)) = length xs)"

fun shuffled_copies ::
  "('g \<Rightarrow> real list \<Rightarrow> real list \<times> 'g) \<Rightarrow> real frame \<Rightarrow> string \<Rightarrow> nat \<Rightarrow> 'g \<Rightarrow>
   real frame list \<times> 'g" where
  "shuffled_copies shuffle df f 0 g = ([], g)"
| "shuffled_copies shuffle df f (Suc k) g =
     (let (p, g1) = shuffle g (column_values df f);
          (copies, g2) = shuffled_copies shuffle df f k g1
      in (assign_column df f p # copies, g2))"

text \<open>
  The scores: for every feature, in the order of the columns, and every evaluation time
  \<open>t\<close>, the quotient of the loss on the untouched table by the arithmetic mean of the
  losses on the shuffled copies of the feature.
\<close>

fun pfi_scores ::
  "('g \<Rightarrow> real list \<Rightarrow> real list \<times> 'g) \<Rightarrow> (real frame \<Rightarrow> real \<Rightarrow> real) \<Rightarrow> real frame \<Rightarrow>
   real list \<Rightarrow> int \<Rightarrow> string list \<Rightarrow> 'g \<Rightarrow> (string \<times> real \<times> npfloat) list" where
  "pfi_scores shuffle loss df eval_times n_perm [] g = []"
| "pfi_scores shuffle loss df eval_times n_perm (f # fs) g =
     (let (copies, g') = shuffled_copies shuffle df f (nat n_perm) g
      in map (\<lambda>t. (f, t, np_true_divide (loss df t) (mean (map (\<lambda>c. loss c t) copies))))
             eval_times
         @ pfi_scores shuffle loss df eval_times n_perm fs g')"

text \<open>The row of the result table for a feature, a time and a score.\<close>

definition result_row :: "string \<times> real \<times> npfloat \<Rightarrow> cell list" where
  "result_row x = [Str (fst x), Num (Fin (fst (snd x))), Num (snd (snd x))]"

subsection \<open>Example inputs\<close>


text \<open>
  A dataset of thirteen observations and two features, a model whose prediction is a
  twentieth of the first feature, a feature table of three rows, a loss, and a generator
  whose state counts the shuffles and that rotates the values.
\<close>

definition ex_data :: "real frame" where
  "ex_data = \<lparr> columns = [''x0'', ''x1''],
      rows = [[3, 1], [0, 0], [12, 1], [7, 0], [1, 1], [9, 0], [5, 1], [2, 0], [11, 1],
              [4, 0], [10, 1], [6, 0], [8, 1]] \<rparr>"

definition ex_predict_at :: "explainer \<Rightarrow> real frame \<Rightarrow> string \<Rightarrow> nat \<Rightarrow> real \<Rightarrow> real" where
  "ex_predict_at e df ty i t = rows df ! i ! 0 / 20"

definition ex_feats :: "real frame" where
  "ex_feats = \<lparr> columns = [''a'', ''b''], rows = [[1, 10], [2, 20], [3, 30]] \<rparr>"

definition ex_heap :: heap where
  "ex_heap = [ex_data, ex_feats]"

definition ex_metric_at :: "explainer \<Rightarrow> real frame \<Rightarrow> unit \<Rightarrow> string \<Rightarrow> real \<Rightarrow> real" where
  "ex_metric_at e df l m t = (rows df ! 0 ! 0 + rows df ! 1 ! 1) * t"

definition ex_shuffle :: "nat \<Rightarrow> real list \<Rightarrow> real list \<times> nat" where
  "ex_shuffle g xs = (rotate (Suc g) xs, Suc g)"

section \<open>Properties\<close>

subsection \<open>Slices and sorted distinct values\<close>







subsection \<open>Evaluation times of ALE\<close>



subsection \<open>The capabilities that are not implemented\<close>

text \<open>
  Claim C9. For every explainer, \<open>feature_interaction\<close> and \<open>functional_decomposition\<close>
  raise the error of an unsupported capability, \<^verbatim>\<open>ValueError("Not supported yet")\<close>; no
  call returns a result.
\<close>

theorem unsupported_capabilities_raise:
  "feature_interaction explainer = Inl (ValueError ''Not supported yet'') \<and>
   functional_decomposition explainer = Inl (ValueError ''Not supported yet'') \<and>
   (\<forall>r. feature_interaction explainer \<noteq> Inr r) \<and>
   (\<forall>r. functional_decomposition explainer \<noteq> Inr r)"
  by (simp add: feature_interaction_def functional_decomposition_def)

end
